theory Spec2Isabelle
  imports Main "HOL-Library.Sublist"
begin

section \<open>Python values, exceptions and the object store\<close>

text \<open>
  The module \<^verbatim>\<open>cell.py\<close> defines one class, \<^verbatim>\<open>Cell\<close>. Its instances are mutable
  objects, and the wall state of a cell is a Python list object that the cell only holds
  a reference to: \<^verbatim>\<open>set_walls\<close> stores the caller's list (\<^verbatim>\<open>self.__walls = l\<close>),
  \<^verbatim>\<open>get_walls\<close> hands the same list out, and \<^verbatim>\<open>remove_wall\<close> writes into it in place.
  The model therefore keeps two stores, one for cell objects and one for list objects,
  both indexed by references.

  The elements of a list given to \<^verbatim>\<open>set_walls\<close> are arbitrary Python values; the
  ones that matter are the booleans and a few representatives of everything else.
\<close>

datatype pyval = PBool bool | PInt int | PStr string | PNone

text \<open>\<^verbatim>\<open>isinstance(x, bool)\<close>\<close>

fun is_bool :: "pyval \<Rightarrow> bool" where
  "is_bool (PBool b) = True"
| "is_bool v = False"

text \<open>Python truth value of an object, as \<^verbatim>\<open>not x\<close> tests it.\<close>

fun truthy :: "pyval \<Rightarrow> bool" where
  "truthy (PBool b) = b"
| "truthy (PInt i) = (i \<noteq> 0)"
| "truthy (PStr s) = (s \<noteq> [])"
| "truthy PNone = False"

text \<open>
  The exceptions the class can raise: a failed \<^verbatim>\<open>assert\<close> with its message, and the
  \<^verbatim>\<open>IndexError\<close> of a list subscript out of range.
\<close>

datatype error = AssertionError string | IndexError

datatype 'a result = Returns 'a | Raises error

type_synonym ref = nat

record cell =
  col :: int
  row :: int
  neighbors :: "(int \<times> int) list"
  visited :: bool
  walls :: ref

record heap =
  cell_objs :: "ref \<Rightarrow> cell"
  list_objs :: "ref \<Rightarrow> pyval list"
  next_cell :: ref
  next_list :: ref

text \<open>
  A method call takes the heap and returns its result (a value or a raised exception)
  together with the heap it leaves behind, so that a mutation made before an exception
  stays visible.
\<close>

text \<open>Evaluating a list display such as \<^verbatim>\<open>[True, True, True, True]\<close> makes a new list object.\<close>

definition new_list :: "heap \<Rightarrow> pyval list \<Rightarrow> ref \<times> heap" where
  "new_list h xs =
     (next_list h,
      h\<lparr>list_objs := (list_objs h)(next_list h := xs), next_list := Suc (next_list h)\<rparr>)"

text \<open>
  Subscripting a Python list with an integer: a negative index counts from the end,
  and an index outside \<open>[-n, n)\<close> raises \<^verbatim>\<open>IndexError\<close> (here \<open>None\<close>).
\<close>

definition py_index :: "'a list \<Rightarrow> int \<Rightarrow> nat option" where
  "py_index xs i =
     (let n = int (length xs); j = (if i < 0 then n + i else i)
      in if 0 \<le> j \<and> j < n then Some (nat j) else None)"

section \<open>The class Cell\<close>

text \<open>The four directions North, East, South, West as \<open>(y, x)\<close> offsets.\<close>

definition offsets :: "(int \<times> int) list" where
  "offsets = [(-1, 0), (0, 1), (1, 0), (0, -1)]"

text \<open>The list comprehension of \<^verbatim>\<open>__init__\<close>.\<close>

definition grid_neighbors :: "int \<Rightarrow> int \<Rightarrow> int \<Rightarrow> int \<Rightarrow> (int \<times> int) list" where
  "grid_neighbors row' column width height =
     map (\<lambda>(y, x). (row' + y, column + x))
       (filter (\<lambda>(y, x). (0 \<le> column + x \<and> column + x < width)
                        \<and> (0 \<le> row' + y \<and> row' + y < height)) offsets)"

text \<open>
  \<^verbatim>\<open>Cell(row, column, width, height)\<close>: a new cell object with a new wall list. The body
  of \<^verbatim>\<open>__init__\<close> has no \<^verbatim>\<open>assert\<close> and no \<^verbatim>\<open>raise\<close>.
\<close>

definition Cell_init :: "heap \<Rightarrow> int \<Rightarrow> int \<Rightarrow> int \<Rightarrow> int \<Rightarrow> ref result \<times> heap" where
  "Cell_init h row' column width height =
     (let (l, h1) = new_list h [PBool True, PBool True, PBool True, PBool True];
          self = next_cell h1
      in (Returns self,
          h1\<lparr>cell_objs := (cell_objs h1)
                (self := \<lparr>col = column, row = row',
                          neighbors = grid_neighbors row' column width height,
                          visited = False, walls = l\<rparr>),
             next_cell := Suc self\<rparr>))"

definition make_visited :: "heap \<Rightarrow> ref \<Rightarrow> unit result \<times> heap" where
  "make_visited h self =
     (Returns (), h\<lparr>cell_objs := (cell_objs h)(self := (cell_objs h self)\<lparr>visited := True\<rparr>)\<rparr>)"

definition make_unvisited :: "heap \<Rightarrow> ref \<Rightarrow> unit result \<times> heap" where
  "make_unvisited h self =
     (Returns (), h\<lparr>cell_objs := (cell_objs h)(self := (cell_objs h self)\<lparr>visited := False\<rparr>)\<rparr>)"

definition get_column :: "heap \<Rightarrow> ref \<Rightarrow> int" where
  "get_column h self = col (cell_objs h self)"

definition get_row :: "heap \<Rightarrow> ref \<Rightarrow> int" where
  "get_row h self = row (cell_objs h self)"

definition is_visited :: "heap \<Rightarrow> ref \<Rightarrow> bool" where
  "is_visited h self = visited (cell_objs h self)"

definition get_neighbors :: "heap \<Rightarrow> ref \<Rightarrow> (int \<times> int) list" where
  "get_neighbors h self = neighbors (cell_objs h self)"

text \<open>\<^verbatim>\<open>get_walls\<close> returns the list object itself, not a copy.\<close>

definition get_walls :: "heap \<Rightarrow> ref \<Rightarrow> ref" where
  "get_walls h self = walls (cell_objs h self)"

text \<open>The contents of the wall list of a cell, as a caller reads them.\<close>

definition wall_values :: "heap \<Rightarrow> ref \<Rightarrow> pyval list" where
  "wall_values h self = list_objs h (get_walls h self)"

text \<open>
  The loop of \<^verbatim>\<open>get_accessible_neighbors\<close> over the four offsets, with its counter
  \<open>i\<close> and its accumulator.
\<close>

fun accessible_loop ::
  "cell \<Rightarrow> pyval list \<Rightarrow> (int \<times> int) list \<Rightarrow> int \<Rightarrow> (int \<times> int) list
     \<Rightarrow> (int \<times> int) list result" where
  "accessible_loop c ws [] i accessibles = Returns accessibles"
| "accessible_loop c ws ((y, x) # rest) i accessibles =
     (if (row c + y, col c + x) \<in> set (neighbors c) then
        (case py_index ws i of
           None \<Rightarrow> Raises IndexError
         | Some j \<Rightarrow>
             if \<not> truthy (ws ! j)
             then accessible_loop c ws rest (i + 1) (accessibles @ [(row c + y, col c + x)])
             else accessible_loop c ws rest (i + 1) accessibles)
      else accessible_loop c ws rest (i + 1) accessibles)"

definition get_accessible_neighbors :: "heap \<Rightarrow> ref \<Rightarrow> (int \<times> int) list result" where
  "get_accessible_neighbors h self =
     accessible_loop (cell_objs h self) (list_objs h (walls (cell_objs h self))) offsets 0 []"

text \<open>
  \<^verbatim>\<open>set_walls(l)\<close>: the argument is a reference to a list object. Both assertions
  come before the assignment, which stores the reference.
\<close>

definition set_walls :: "heap \<Rightarrow> ref \<Rightarrow> ref \<Rightarrow> unit result \<times> heap" where
  "set_walls h self l =
     (if length (list_objs h l) \<noteq> 4
      then (Raises (AssertionError ''The list should have 4 elements''), h)
      else if \<not> list_all is_bool (list_objs h l)
      then (Raises (AssertionError ''Only booleans should be inside''), h)
      else (Returns (),
            h\<lparr>cell_objs := (cell_objs h)(self := (cell_objs h self)\<lparr>walls := l\<rparr>)\<rparr>))"

text \<open>\<^verbatim>\<open>self.__walls[i] = False\<close>: an in-place write into the list object.\<close>

definition remove_wall :: "heap \<Rightarrow> ref \<Rightarrow> int \<Rightarrow> unit result \<times> heap" where
  "remove_wall h self i =
     (let l = walls (cell_objs h self)
      in case py_index (list_objs h l) i of
           None \<Rightarrow> (Raises IndexError, h)
         | Some j \<Rightarrow>
             (Returns (), h\<lparr>list_objs := (list_objs h)(l := (list_objs h l)[j := PBool False])\<rparr>))"

text \<open>
  \<^verbatim>\<open>remove_wall_between_cell\<close>. The argument is a reference to a cell object, so the
  first assertion (\<^verbatim>\<open>isinstance(another_cell, Cell)\<close>) holds by typing. \<^verbatim>\<open>self is not
  another_cell\<close> compares references. The second \<^verbatim>\<open>remove_wall\<close> runs on the heap the
  first one left, and only if the first one returned.
\<close>

definition remove_wall_between_cell :: "heap \<Rightarrow> ref \<Rightarrow> ref \<Rightarrow> unit result \<times> heap" where
  "remove_wall_between_cell h self another_cell =
     (if self = another_cell
      then (Raises (AssertionError ''The given cell should be another cell''), h)
      else if (get_row h another_cell, get_column h another_cell)
                \<notin> set (neighbors (cell_objs h self))
      then (Raises (AssertionError ''The two cells are not neighbors''), h)
      else
        let col_diff = col (cell_objs h self) - get_column h another_cell;
            row_diff = row (cell_objs h self) - get_row h another_cell
        in if col_diff \<noteq> 0
           then (case remove_wall h self (2 + col_diff) of
                   (Raises e, h1) \<Rightarrow> (Raises e, h1)
                 | (Returns u, h1) \<Rightarrow> remove_wall h1 another_cell (2 - col_diff))
           else (case remove_wall h self (1 - row_diff) of
                   (Raises e, h1) \<Rightarrow> (Raises e, h1)
                 | (Returns u, h1) \<Rightarrow> remove_wall h1 another_cell (1 + row_diff)))"

text \<open>A heap with no object allocated yet.\<close>

definition empty_heap :: heap where
  "empty_heap =
     \<lparr>cell_objs = (\<lambda>r. \<lparr>col = 0, row = 0, neighbors = [], visited = False, walls = 0\<rparr>),
      list_objs = (\<lambda>r. []), next_cell = 0, next_list = 0\<rparr>"

section \<open>Vocabulary of the properties\<close>

text \<open>Whether a call ended in an exception.\<close>

fun raised :: "'a result \<times> heap \<Rightarrow> bool" where
  "raised (Raises e, h) = True"
| "raised (Returns v, h) = False"

text \<open>
  The heap in which entry \<open>j\<close> of the list object \<open>l\<close> is \<^verbatim>\<open>False\<close> and everything
  else is as in \<open>h\<close>.
\<close>

definition clear_wall :: "heap \<Rightarrow> ref \<Rightarrow> nat \<Rightarrow> heap" where
  "clear_wall h l j = h\<lparr>list_objs := (list_objs h)(l := (list_objs h l)[j := PBool False])\<rparr>"

text \<open>The position of the first occurrence of an element in a list (the length if absent).\<close>

fun position :: "'a list \<Rightarrow> 'a \<Rightarrow> nat" where
  "position [] a = 0"
| "position (x # xs) a = (if x = a then 0 else Suc (position xs a))"

text \<open>
  The wall of a cell that looks toward a coordinate: \<^verbatim>\<open>get_accessible_neighbors\<close> pairs
  entry \<open>i\<close> of the wall list with entry \<open>i\<close> of the offsets, so the wall toward
  \<open>(r, c)\<close> is the position of the step \<open>(r - row, c - column)\<close> among the offsets:
  0 North, 1 East, 2 South, 3 West.
\<close>

definition wall_toward :: "heap \<Rightarrow> ref \<Rightarrow> int \<times> int \<Rightarrow> nat" where
  "wall_toward h self p = position offsets (fst p - get_row h self, snd p - get_column h self)"

text \<open>The wall of cell \<open>a\<close> that faces cell \<open>b\<close>.\<close>

definition facing :: "heap \<Rightarrow> ref \<Rightarrow> ref \<Rightarrow> nat" where
  "facing h a b = wall_toward h a (get_row h b, get_column h b)"

text \<open>
  A client of the class: the mutating methods as calls on a receiver, and a sequence of
  such calls run one after the other, going on after a call that raised (as a caller
  that catches the exception would).
\<close>

datatype call =
    Make_visited
  | Make_unvisited
  | Set_walls ref
  | Remove_wall int
  | Remove_wall_between_cell ref

fun invoke :: "heap \<Rightarrow> ref \<times> call \<Rightarrow> unit result \<times> heap" where
  "invoke h (self, Make_visited) = make_visited h self"
| "invoke h (self, Make_unvisited) = make_unvisited h self"
| "invoke h (self, Set_walls l) = set_walls h self l"
| "invoke h (self, Remove_wall i) = remove_wall h self i"
| "invoke h (self, Remove_wall_between_cell another_cell) =
     remove_wall_between_cell h self another_cell"

fun run :: "heap \<Rightarrow> (ref \<times> call) list \<Rightarrow> heap" where
  "run h [] = h"
| "run h (c # cs) = run (snd (invoke h c)) cs"

text \<open>
  Example heaps. The first is the one of the class docstring:
  \<^verbatim>\<open>cell = Cell(1, 0, 5, 5); near_cell = Cell(0, 0, 5, 5)\<close>, with \<^verbatim>\<open>cell\<close> at reference 0
  and \<^verbatim>\<open>near_cell\<close> at reference 1. The second adds \<^verbatim>\<open>far_cell = Cell(3, 3, 5, 5)\<close> at
  reference 2. The third is the first after \<^verbatim>\<open>near_cell.set_walls(cell.get_walls())\<close>.
\<close>

definition two_cells :: heap where
  "two_cells = snd (Cell_init (snd (Cell_init empty_heap 1 0 5 5)) 0 0 5 5)"

definition three_cells :: heap where
  "three_cells = snd (Cell_init two_cells 3 3 5 5)"

definition shared_walls :: heap where
  "shared_walls = snd (set_walls two_cells 1 (get_walls two_cells 0))"

text \<open>
  A cell built outside its grid next to one inside:
  \<^verbatim>\<open>edge_cell = Cell(-1, 0, 5, 5)\<close> at reference 0 and \<^verbatim>\<open>corner_cell = Cell(0, 0, 5, 5)\<close>
  at reference 1.
\<close>

definition outside_cells :: heap where
  "outside_cells = snd (Cell_init (snd (Cell_init empty_heap (-1) 0 5 5)) 0 0 5 5)"

section \<open>The neighbor list\<close>

text \<open>
  The list comprehension keeps at most the four candidate coordinates, in the order of
  \<open>offsets\<close>; every coordinate it keeps is inside the grid and one step away from the
  cell along one axis.
\<close>

lemma length_grid_neighbors: "length (grid_neighbors r c w hg) \<le> 4"
proof -
  have "length (grid_neighbors r c w hg) \<le> length offsets"
    unfolding grid_neighbors_def by (simp del: filter.simps)
  then show ?thesis by (simp add: offsets_def)
qed

text \<open>The constructor, with its local bindings unfolded.\<close>

lemma Cell_init_result:
  "Cell_init h r c w hg =
     (Returns (next_cell h),
      h\<lparr>list_objs := (list_objs h)(next_list h := [PBool True, PBool True, PBool True, PBool True]),
        next_list := Suc (next_list h),
        cell_objs := (cell_objs h)
          (next_cell h := \<lparr>col = c, row = r, neighbors = grid_neighbors r c w hg,
                           visited = False, walls = next_list h\<rparr>),
        next_cell := Suc (next_cell h)\<rparr>)"
  by (simp add: Cell_init_def new_list_def Let_def)

lemma grid_neighbors_unit:
  assumes "(nr, nc) \<in> set (grid_neighbors r c w hg)"
  shows "(0 \<le> nr \<and> nr < hg \<and> 0 \<le> nc \<and> nc < w)
     \<and> ((nc = c \<and> \<bar>nr - r\<bar> = 1) \<or> (nr = r \<and> \<bar>nc - c\<bar> = 1))"
proof -
  from assms obtain y x where yx: "(y, x) \<in> set offsets" and n: "nr = r + y" "nc = c + x"
    and b: "0 \<le> c + x" "c + x < w" "0 \<le> r + y" "r + y < hg"
    unfolding grid_neighbors_def by (auto simp del: filter.simps)
  from yx have "(y = -1 \<and> x = 0) \<or> (y = 0 \<and> x = 1) \<or> (y = 1 \<and> x = 0) \<or> (y = 0 \<and> x = -1)"
    by (simp add: offsets_def)
  with n b show ?thesis by auto
qed

text \<open>
  Within one grid, being in the neighbor list is mutual: if the cell at \<open>(ra, ca)\<close> is
  inside the grid and \<open>(rb, cb)\<close> is in its neighbor list, then \<open>(ra, ca)\<close> is in the
  neighbor list of the cell at \<open>(rb, cb)\<close>.
\<close>

lemma grid_neighbors_mutual:
  assumes "0 \<le> ra" and "ra < hg" and "0 \<le> ca" and "ca < w"
    and "(rb, cb) \<in> set (grid_neighbors ra ca w hg)"
  shows "(ra, ca) \<in> set (grid_neighbors rb cb w hg)"
proof -
  from assms(5) obtain y x where yx: "(y, x) \<in> set offsets" and n: "rb = ra + y" "cb = ca + x"
    unfolding grid_neighbors_def by (auto simp del: filter.simps)
  from yx have opp: "(- y, - x) \<in> set offsets"
    by (auto simp: offsets_def)
  from n have a: "ra = rb + (- y)" "ca = cb + (- x)" by simp_all
  from assms(1-4) a opp
  have "(- y, - x) \<in> set (filter (\<lambda>(y, x). (0 \<le> cb + x \<and> cb + x < w)
                        \<and> (0 \<le> rb + y \<and> rb + y < hg)) offsets)"
    by (simp del: filter.simps)
  then have "(\<lambda>(y, x). (rb + y, cb + x)) (- y, - x)
      \<in> set (grid_neighbors rb cb w hg)"
    unfolding grid_neighbors_def set_map by (rule imageI)
  with a show ?thesis by simp
qed

subsection \<open>The example heaps, evaluated\<close>

lemma neighbors_1_0: "grid_neighbors 1 0 5 5 = [(0, 0), (1, 1), (2, 0)]"
  by (simp add: grid_neighbors_def offsets_def)

lemma neighbors_0_0: "grid_neighbors 0 0 5 5 = [(0, 1), (1, 0)]"
  by (simp add: grid_neighbors_def offsets_def)

lemma neighbors_3_3: "grid_neighbors 3 3 5 5 = [(2, 3), (3, 4), (4, 3), (3, 2)]"
  by (simp add: grid_neighbors_def offsets_def)

lemma two_cells_eq:
  "two_cells =
     \<lparr>cell_objs = (\<lambda>r. \<lparr>col = 0, row = 0, neighbors = [], visited = False, walls = 0\<rparr>)
        (0 := \<lparr>col = 0, row = 1, neighbors = [(0, 0), (1, 1), (2, 0)], visited = False, walls = 0\<rparr>,
         1 := \<lparr>col = 0, row = 0, neighbors = [(0, 1), (1, 0)], visited = False, walls = 1\<rparr>),
      list_objs = (\<lambda>r. [])
        (0 := [PBool True, PBool True, PBool True, PBool True],
         1 := [PBool True, PBool True, PBool True, PBool True]),
      next_cell = 2, next_list = 2\<rparr>"
  by (simp add: two_cells_def Cell_init_result empty_heap_def neighbors_1_0 neighbors_0_0)

lemma three_cells_eq:
  "three_cells =
     \<lparr>cell_objs = (\<lambda>r. \<lparr>col = 0, row = 0, neighbors = [], visited = False, walls = 0\<rparr>)
        (0 := \<lparr>col = 0, row = 1, neighbors = [(0, 0), (1, 1), (2, 0)], visited = False, walls = 0\<rparr>,
         1 := \<lparr>col = 0, row = 0, neighbors = [(0, 1), (1, 0)], visited = False, walls = 1\<rparr>,
         2 := \<lparr>col = 3, row = 3, neighbors = [(2, 3), (3, 4), (4, 3), (3, 2)], visited = False, walls = 2\<rparr>),
      list_objs = (\<lambda>r. [])
        (0 := [PBool True, PBool True, PBool True, PBool True],
         1 := [PBool True, PBool True, PBool True, PBool True],
         2 := [PBool True, PBool True, PBool True, PBool True]),
      next_cell = 3, next_list = 3\<rparr>"
  by (simp add: three_cells_def two_cells_eq Cell_init_result neighbors_3_3)

lemma shared_walls_eq:
  "shared_walls =
     \<lparr>cell_objs = (\<lambda>r. \<lparr>col = 0, row = 0, neighbors = [], visited = False, walls = 0\<rparr>)
        (0 := \<lparr>col = 0, row = 1, neighbors = [(0, 0), (1, 1), (2, 0)], visited = False, walls = 0\<rparr>,
         1 := \<lparr>col = 0, row = 0, neighbors = [(0, 1), (1, 0)], visited = False, walls = 0\<rparr>),
      list_objs = (\<lambda>r. [])
        (0 := [PBool True, PBool True, PBool True, PBool True],
         1 := [PBool True, PBool True, PBool True, PBool True]),
      next_cell = 2, next_list = 2\<rparr>"
  by (simp add: shared_walls_def two_cells_eq set_walls_def get_walls_def)

lemma two_cells_reads:
  "get_row two_cells 0 = 1" "get_column two_cells 0 = 0"
  "get_row two_cells (Suc 0) = 0" "get_column two_cells (Suc 0) = 0"
  "get_neighbors two_cells 0 = grid_neighbors 1 0 5 5"
  "get_neighbors two_cells (Suc 0) = grid_neighbors 0 0 5 5"
  "get_walls two_cells 0 = 0" "get_walls two_cells (Suc 0) = Suc 0"
  "wall_values two_cells 0 = [PBool True, PBool True, PBool True, PBool True]"
  "wall_values two_cells (Suc 0) = [PBool True, PBool True, PBool True, PBool True]"
  by (simp_all add: two_cells_eq get_row_def get_column_def get_neighbors_def get_walls_def
      wall_values_def neighbors_1_0 neighbors_0_0)

lemma shared_walls_reads:
  "get_row shared_walls 0 = 1" "get_column shared_walls 0 = 0"
  "get_row shared_walls (Suc 0) = 0" "get_column shared_walls (Suc 0) = 0"
  "get_neighbors shared_walls 0 = grid_neighbors 1 0 5 5"
  "get_neighbors shared_walls (Suc 0) = grid_neighbors 0 0 5 5"
  "get_walls shared_walls 0 = 0" "get_walls shared_walls (Suc 0) = 0"
  "wall_values shared_walls 0 = [PBool True, PBool True, PBool True, PBool True]"
  "wall_values shared_walls (Suc 0) = [PBool True, PBool True, PBool True, PBool True]"
  by (simp_all add: shared_walls_eq get_row_def get_column_def get_neighbors_def get_walls_def
      wall_values_def neighbors_1_0 neighbors_0_0)

lemma neighbors_outside: "grid_neighbors (-1) 0 5 5 = [(0, 0)]"
  by (simp add: grid_neighbors_def offsets_def)

lemma outside_cells_eq:
  "outside_cells =
     \<lparr>cell_objs = (\<lambda>r. \<lparr>col = 0, row = 0, neighbors = [], visited = False, walls = 0\<rparr>)
        (0 := \<lparr>col = 0, row = -1, neighbors = [(0, 0)], visited = False, walls = 0\<rparr>,
         1 := \<lparr>col = 0, row = 0, neighbors = [(0, 1), (1, 0)], visited = False, walls = 1\<rparr>),
      list_objs = (\<lambda>r. [])
        (0 := [PBool True, PBool True, PBool True, PBool True],
         1 := [PBool True, PBool True, PBool True, PBool True]),
      next_cell = 2, next_list = 2\<rparr>"
  by (simp add: outside_cells_def Cell_init_result empty_heap_def neighbors_outside neighbors_0_0)

lemma outside_cells_reads:
  "get_row outside_cells 0 = -1" "get_column outside_cells 0 = 0"
  "get_row outside_cells (Suc 0) = 0" "get_column outside_cells (Suc 0) = 0"
  "get_neighbors outside_cells 0 = [(0, 0)]"
  "get_neighbors outside_cells (Suc 0) = [(0, 1), (1, 0)]"
  "get_walls outside_cells 0 = 0" "get_walls outside_cells (Suc 0) = Suc 0"
  "wall_values outside_cells 0 = [PBool True, PBool True, PBool True, PBool True]"
  "wall_values outside_cells (Suc 0) = [PBool True, PBool True, PBool True, PBool True]"
  by (simp_all add: outside_cells_eq get_row_def get_column_def get_neighbors_def get_walls_def
      wall_values_def)

section \<open>Construction\<close>

text \<open>
  Claim C7. For all \<open>(row, column, width, height)\<close> with \<open>width \<ge> 1\<close>, \<open>height \<ge> 1\<close>,
  \<open>0 \<le> row < height\<close> and \<open>0 \<le> column < width\<close>, the constructor returns a new cell
  for which \<^verbatim>\<open>get_neighbors()\<close> has at most 4 entries, every entry lies inside the grid
  and differs from \<open>(row, column)\<close> by exactly one unit in exactly one axis,
  \<^verbatim>\<open>is_visited()\<close> is false, and the wall list reads \<open>[True, True, True, True]\<close>.
\<close>

theorem fresh_cell_properties:
  assumes "1 \<le> width" and "1 \<le> height"
    and "0 \<le> row'" and "row' < height" and "0 \<le> column" and "column < width"
    and "Cell_init h row' column width height = (res, h')"
  shows "\<exists>self. res = Returns self
           \<and> length (get_neighbors h' self) \<le> 4
           \<and> (\<forall>(nr, nc) \<in> set (get_neighbors h' self).
                 (0 \<le> nr \<and> nr < height \<and> 0 \<le> nc \<and> nc < width)
                 \<and> ((nc = column \<and> \<bar>nr - row'\<bar> = 1) \<or> (nr = row' \<and> \<bar>nc - column\<bar> = 1)))
           \<and> is_visited h' self = False
           \<and> wall_values h' self = [PBool True, PBool True, PBool True, PBool True]"
proof (intro exI conjI)
  from assms(7) show "res = Returns (next_cell h)"
    by (simp add: Cell_init_result)
  from assms(7) have nb: "get_neighbors h' (next_cell h) = grid_neighbors row' column width height"
    by (auto simp: Cell_init_result get_neighbors_def)
  show "length (get_neighbors h' (next_cell h)) \<le> 4"
    unfolding nb by (rule length_grid_neighbors)
  show "\<forall>(nr, nc) \<in> set (get_neighbors h' (next_cell h)).
                 (0 \<le> nr \<and> nr < height \<and> 0 \<le> nc \<and> nc < width)
                 \<and> ((nc = column \<and> \<bar>nr - row'\<bar> = 1) \<or> (nr = row' \<and> \<bar>nc - column\<bar> = 1))"
    unfolding nb using grid_neighbors_unit [of _ _ row' column width height] by blast
  from assms(7) show "is_visited h' (next_cell h) = False"
    by (auto simp: Cell_init_result is_visited_def)
  from assms(7) show "wall_values h' (next_cell h) = [PBool True, PBool True, PBool True, PBool True]"
    by (auto simp: Cell_init_result wall_values_def get_walls_def)
qed

text \<open>The cell of the class docstring, \<^verbatim>\<open>Cell(1, 0, 5, 5)\<close>, built on the empty heap.\<close>

theorem fresh_cell_properties_witness:
  "(1::int) \<le> 5 \<and> (0::int) \<le> 1 \<and> (1::int) < 5 \<and> (0::int) \<le> 0 \<and> (0::int) < 5
   \<and> (\<exists>self. fst (Cell_init empty_heap 1 0 5 5) = Returns self
         \<and> length (get_neighbors (snd (Cell_init empty_heap 1 0 5 5)) self) \<le> 4
         \<and> (\<forall>(nr, nc) \<in> set (get_neighbors (snd (Cell_init empty_heap 1 0 5 5)) self).
               (0 \<le> nr \<and> nr < 5 \<and> 0 \<le> nc \<and> nc < 5)
               \<and> ((nc = 0 \<and> \<bar>nr - 1\<bar> = 1) \<or> (nr = 1 \<and> \<bar>nc - 0\<bar> = 1)))
         \<and> is_visited (snd (Cell_init empty_heap 1 0 5 5)) self = False
         \<and> wall_values (snd (Cell_init empty_heap 1 0 5 5)) self
             = [PBool True, PBool True, PBool True, PBool True])"
proof -
  have e: "Cell_init empty_heap 1 0 5 5
             = (fst (Cell_init empty_heap 1 0 5 5), snd (Cell_init empty_heap 1 0 5 5))"
    by simp
  have b: "(1::int) \<le> 5" "(0::int) \<le> 1" "(1::int) < 5" "(0::int) \<le> 0" "(0::int) < 5"
    by simp_all
  from fresh_cell_properties [OF b(1) b(1) b(2) b(3) b(4) b(5) e] b
  show ?thesis by blast
qed

lemma grid_neighbors_empty:
  "width \<le> 0 \<or> height \<le> 0 \<Longrightarrow> grid_neighbors r c width height = []"
  unfolding grid_neighbors_def by (auto simp: filter_empty_conv simp del: filter.simps)

text \<open>
  Claim C4 says that construction fails with an \<open>InvalidGeometry\<close> error whenever
  \<open>width \<le> 0\<close>, or \<open>height \<le> 0\<close>, or \<open>(row, column)\<close> lies outside the grid. The
  constructor has no check at all: \<^verbatim>\<open>Cell(0, 0, 0, 0)\<close> returns a cell, with an empty
  neighbor list.
\<close>

theorem Cell_init_invalid_geometry_counterexample:
  "(0::int) \<le> 0 \<and> \<not> raised (Cell_init empty_heap 0 0 0 0)
   \<and> fst (Cell_init empty_heap 0 0 0 0) = Returns 0
   \<and> get_neighbors (snd (Cell_init empty_heap 0 0 0 0)) 0 = []"
  by (simp add: Cell_init_result empty_heap_def get_neighbors_def grid_neighbors_def offsets_def)

text \<open>
  Claim C4, as the code has it: construction never fails. For any integers \<open>row\<close>,
  \<open>column\<close>, \<open>width\<close>, \<open>height\<close> it returns a new cell that stores \<open>row\<close> and
  \<open>column\<close> and whose neighbor list holds the in-grid ones among the four adjacent
  coordinates; when \<open>width \<le> 0\<close> or \<open>height \<le> 0\<close> that list is empty.
\<close>

theorem Cell_init_always_returns:
  "\<not> raised (Cell_init h row' column width height)
   \<and> fst (Cell_init h row' column width height) = Returns (next_cell h)
   \<and> get_row (snd (Cell_init h row' column width height)) (next_cell h) = row'
   \<and> get_column (snd (Cell_init h row' column width height)) (next_cell h) = column
   \<and> get_neighbors (snd (Cell_init h row' column width height)) (next_cell h)
        = grid_neighbors row' column width height
   \<and> (width \<le> 0 \<or> height \<le> 0 \<longrightarrow>
        get_neighbors (snd (Cell_init h row' column width height)) (next_cell h) = [])"
  by (simp add: Cell_init_result get_row_def get_column_def get_neighbors_def grid_neighbors_empty)

theorem Cell_init_always_returns_witness:
  "(0::int) \<le> 0 \<and> \<not> raised (Cell_init empty_heap 2 7 0 3)
   \<and> get_neighbors (snd (Cell_init empty_heap 2 7 0 3)) (next_cell empty_heap) = []"
proof -
  have "(0::int) \<le> 0" by simp
  with Cell_init_always_returns [of empty_heap 2 7 0 3] show ?thesis by blast
qed

section \<open>Removing one wall\<close>

lemma py_index_4:
  "length xs = 4 \<Longrightarrow>
     py_index xs i = (if -4 \<le> i \<and> i < 0 then Some (nat (4 + i))
                      else if 0 \<le> i \<and> i < 4 then Some (nat i) else None)"
  by (simp add: py_index_def Let_def)

lemma remove_wall_alt:
  "remove_wall h self i =
     (case py_index (wall_values h self) i of
        None \<Rightarrow> (Raises IndexError, h)
      | Some j \<Rightarrow> (Returns (), clear_wall h (get_walls h self) j))"
  by (simp add: remove_wall_def wall_values_def get_walls_def clear_wall_def Let_def
      split: option.split)

lemma remove_wall_4:
  assumes "length (wall_values h self) = 4"
  shows "remove_wall h self i =
     (if -4 \<le> i \<and> i < 0 then (Returns (), clear_wall h (get_walls h self) (nat (4 + i)))
      else if 0 \<le> i \<and> i < 4 then (Returns (), clear_wall h (get_walls h self) (nat i))
      else (Raises IndexError, h))"
  by (simp add: remove_wall_alt py_index_4 [OF assms])

text \<open>
  Claim C10. On a cell whose wall list has its 4 entries, \<^verbatim>\<open>remove_wall(index)\<close> with
  \<open>-4 \<le> index \<le> -1\<close> raises nothing and sets entry \<open>4 + index\<close> of the wall list to
  \<^verbatim>\<open>False\<close> (so \<^verbatim>\<open>remove_wall(-1)\<close> clears the West wall); the call raises exactly
  when the index is outside \<open>[-4, 4)\<close>, and then it is an \<^verbatim>\<open>IndexError\<close> that leaves the
  heap as it was.
\<close>

theorem remove_wall_negative_index:
  assumes "length (wall_values h self) = 4"
  shows "(-4 \<le> i \<and> i \<le> -1 \<longrightarrow>
            remove_wall h self i
              = (Returns (), clear_wall h (get_walls h self) (nat (4 + i))))
       \<and> (raised (remove_wall h self i) \<longleftrightarrow> i < -4 \<or> 4 \<le> i)
       \<and> (i < -4 \<or> 4 \<le> i \<longrightarrow> remove_wall h self i = (Raises IndexError, h))"
  by (auto simp: remove_wall_4 [OF assms])

theorem remove_wall_negative_index_witness:
  "length (wall_values two_cells 0) = 4 \<and> (-4::int) \<le> -1 \<and> (-1::int) \<le> -1
   \<and> remove_wall two_cells 0 (-1) = (Returns (), clear_wall two_cells (get_walls two_cells 0) 3)
   \<and> wall_values (clear_wall two_cells (get_walls two_cells 0) 3) 0
        = [PBool True, PBool True, PBool True, PBool False]
   \<and> (4::int) \<le> 4 \<and> remove_wall two_cells 0 4 = (Raises IndexError, two_cells)"
proof -
  have len: "length (wall_values two_cells 0) = 4"
    by (simp add: two_cells_eq wall_values_def get_walls_def)
  have ws: "wall_values (clear_wall two_cells (get_walls two_cells 0) 3) 0
        = [PBool True, PBool True, PBool True, PBool False]"
    by (simp add: two_cells_eq wall_values_def get_walls_def clear_wall_def)
  from remove_wall_negative_index [OF len, of "-1"] remove_wall_negative_index [OF len, of 4] len ws
  show ?thesis by simp
qed

section \<open>Setting the walls\<close>

lemma new_list_at: "list_objs (snd (new_list h xs)) (next_list h) = xs"
  by (simp add: new_list_def)

lemma next_list_two_cells: "next_list two_cells = 2"
  by (simp add: two_cells_eq)

text \<open>
  Claim C6. \<^verbatim>\<open>set_walls\<close> fails (with the \<^verbatim>\<open>AssertionError\<close> of its first or second
  assertion, the code's form of \<open>InvalidArgument\<close>) whenever the given list has a length
  other than 4 or holds an element that is not a boolean, and the heap after the rejected
  call is the heap before it; with a list of 4 booleans it returns, and the cell's wall
  list is then exactly the given list, the contents of all list objects being untouched.
\<close>

theorem set_walls_contract:
  "(length (list_objs h l) \<noteq> 4 \<longrightarrow>
      set_walls h self l = (Raises (AssertionError ''The list should have 4 elements''), h))
   \<and> (length (list_objs h l) = 4 \<and> (\<exists>x \<in> set (list_objs h l). \<not> is_bool x) \<longrightarrow>
      set_walls h self l = (Raises (AssertionError ''Only booleans should be inside''), h))
   \<and> (length (list_objs h l) \<noteq> 4 \<or> (\<exists>x \<in> set (list_objs h l). \<not> is_bool x) \<longrightarrow>
      raised (set_walls h self l) \<and> snd (set_walls h self l) = h)
   \<and> (length (list_objs h l) = 4 \<and> (\<forall>x \<in> set (list_objs h l). is_bool x) \<longrightarrow>
      fst (set_walls h self l) = Returns ()
      \<and> get_walls (snd (set_walls h self l)) self = l
      \<and> wall_values (snd (set_walls h self l)) self = list_objs h l
      \<and> list_objs (snd (set_walls h self l)) = list_objs h)"
  by (auto simp: set_walls_def list_all_iff get_walls_def wall_values_def)

text \<open>
  Three calls on \<^verbatim>\<open>cell\<close> of the docstring heap, each with a list the caller has just
  made: one element only, an integer among the booleans, and the four booleans of the
  method's docstring.
\<close>

theorem set_walls_contract_witness:
  "length (list_objs (snd (new_list two_cells [PBool True])) 2) \<noteq> 4
   \<and> set_walls (snd (new_list two_cells [PBool True])) 0 2
       = (Raises (AssertionError ''The list should have 4 elements''),
          snd (new_list two_cells [PBool True]))
   \<and> length (list_objs (snd (new_list two_cells [PBool True, PInt 1, PBool False, PBool True])) 2) = 4
   \<and> (\<exists>x \<in> set (list_objs
          (snd (new_list two_cells [PBool True, PInt 1, PBool False, PBool True])) 2). \<not> is_bool x)
   \<and> set_walls (snd (new_list two_cells [PBool True, PInt 1, PBool False, PBool True])) 0 2
       = (Raises (AssertionError ''Only booleans should be inside''),
          snd (new_list two_cells [PBool True, PInt 1, PBool False, PBool True]))
   \<and> length (list_objs
         (snd (new_list two_cells [PBool False, PBool False, PBool True, PBool False])) 2) = 4
   \<and> list_all is_bool (list_objs
          (snd (new_list two_cells [PBool False, PBool False, PBool True, PBool False])) 2)
   \<and> wall_values
         (snd (set_walls
            (snd (new_list two_cells [PBool False, PBool False, PBool True, PBool False])) 0 2)) 0
       = [PBool False, PBool False, PBool True, PBool False]"
proof -
  have a: "list_objs (snd (new_list two_cells xs)) 2 = xs" for xs
    using new_list_at [of two_cells xs] by (simp add: next_list_two_cells)
  from
    set_walls_contract [of "snd (new_list two_cells [PBool True])" 2 0]
    set_walls_contract [of "snd (new_list two_cells [PBool True, PInt 1, PBool False, PBool True])" 2 0]
    set_walls_contract
      [of "snd (new_list two_cells [PBool False, PBool False, PBool True, PBool False])" 2 0]
  show ?thesis by (simp add: a)
qed

section \<open>Removing the wall between two cells\<close>

text \<open>
  Claim C3. \<^verbatim>\<open>remove_wall_between_cell\<close> called with the same cell object for
  \<^verbatim>\<open>self\<close> and the argument fails (the assertion \<^verbatim>\<open>self is not another_cell\<close>, the
  code's form of \<open>InvalidArgument\<close>); called with another cell whose \<open>(row, column)\<close> is
  not in the neighbor list of \<^verbatim>\<open>self\<close> it fails (the adjacency assertion, the code's
  form of \<open>NotAdjacent\<close>); in both cases the heap after the call is the heap before it,
  so no wall of either cell has changed.
\<close>

theorem remove_wall_between_cell_rejects:
  "remove_wall_between_cell h self self
     = (Raises (AssertionError ''The given cell should be another cell''), h)
   \<and> (self \<noteq> another_cell
        \<and> (get_row h another_cell, get_column h another_cell) \<notin> set (get_neighbors h self)
      \<longrightarrow> remove_wall_between_cell h self another_cell
            = (Raises (AssertionError ''The two cells are not neighbors''), h))"
  by (simp add: remove_wall_between_cell_def get_neighbors_def)

theorem remove_wall_between_cell_rejects_witness:
  "remove_wall_between_cell three_cells 0 0
     = (Raises (AssertionError ''The given cell should be another cell''), three_cells)
   \<and> (0::nat) \<noteq> 2
   \<and> (get_row three_cells 2, get_column three_cells 2) \<notin> set (get_neighbors three_cells 0)
   \<and> remove_wall_between_cell three_cells 0 2
        = (Raises (AssertionError ''The two cells are not neighbors''), three_cells)"
proof -
  have far: "(get_row three_cells 2, get_column three_cells 2) \<notin> set (get_neighbors three_cells 0)"
    by (simp add: three_cells_eq get_row_def get_column_def get_neighbors_def)
  from remove_wall_between_cell_rejects [of three_cells 0 2] far
  show ?thesis by simp
qed

lemma cell_objs_clear_wall [simp]: "cell_objs (clear_wall h l j) = cell_objs h"
  by (simp add: clear_wall_def)

lemma get_walls_clear_wall [simp]: "get_walls (clear_wall h l j) a = get_walls h a"
  by (simp add: get_walls_def)

lemma get_row_clear_wall [simp]: "get_row (clear_wall h l j) a = get_row h a"
  by (simp add: get_row_def)

lemma get_column_clear_wall [simp]: "get_column (clear_wall h l j) a = get_column h a"
  by (simp add: get_column_def)

lemma get_neighbors_clear_wall [simp]: "get_neighbors (clear_wall h l j) a = get_neighbors h a"
  by (simp add: get_neighbors_def)

lemma wall_values_clear_wall:
  "wall_values (clear_wall h l j) a =
     (if get_walls h a = l then (wall_values h a)[j := PBool False] else wall_values h a)"
  by (simp add: wall_values_def clear_wall_def get_walls_def)

lemma length_wall_values_clear_wall [simp]:
  "length (wall_values (clear_wall h l j) a) = length (wall_values h a)"
  by (simp add: wall_values_clear_wall)

text \<open>A coordinate of the neighbor list is one step North, East, South or West.\<close>

lemma adjacent_cases:
  assumes "(get_row h b, get_column h b) \<in> set (get_neighbors h a)"
    and "get_neighbors h a = grid_neighbors (get_row h a) (get_column h a) width height"
  shows "(get_row h b = get_row h a - 1 \<and> get_column h b = get_column h a)
       \<or> (get_row h b = get_row h a \<and> get_column h b = get_column h a + 1)
       \<or> (get_row h b = get_row h a + 1 \<and> get_column h b = get_column h a)
       \<or> (get_row h b = get_row h a \<and> get_column h b = get_column h a - 1)"
proof -
  from assms have "(get_row h b, get_column h b)
      \<in> set (grid_neighbors (get_row h a) (get_column h a) width height)"
    by simp
  from grid_neighbors_unit [OF this]
  have "(get_column h b = get_column h a \<and> \<bar>get_row h b - get_row h a\<bar> = 1)
      \<or> (get_row h b = get_row h a \<and> \<bar>get_column h b - get_column h a\<bar> = 1)"
    by simp
  then show ?thesis by arith
qed

text \<open>The two writes of a call that passes both assertions.\<close>

lemma remove_wall_between_cell_writes:
  assumes "self \<noteq> another_cell"
    and "(get_row h another_cell, get_column h another_cell) \<in> set (get_neighbors h self)"
    and "length (wall_values h self) = 4" and "length (wall_values h another_cell) = 4"
    and "(if get_column h self - get_column h another_cell \<noteq> 0
          then (2 + (get_column h self - get_column h another_cell),
                2 - (get_column h self - get_column h another_cell))
          else (1 - (get_row h self - get_row h another_cell),
                1 + (get_row h self - get_row h another_cell))) = (i, j)"
    and "0 \<le> i" "i < 4" "0 \<le> j" "j < 4"
  shows "remove_wall_between_cell h self another_cell
           = (Returns (),
              clear_wall (clear_wall h (get_walls h self) (nat i)) (get_walls h another_cell) (nat j))"
proof -
  have first: "remove_wall h self i = (Returns (), clear_wall h (get_walls h self) (nat i))"
    using assms(6,7) by (simp add: remove_wall_4 [OF assms(3)])
  have "length (wall_values (clear_wall h (get_walls h self) (nat i)) another_cell) = 4"
    using assms(4) by simp
  from remove_wall_4 [OF this] assms(8,9)
  have second: "remove_wall (clear_wall h (get_walls h self) (nat i)) another_cell j
      = (Returns (),
         clear_wall (clear_wall h (get_walls h self) (nat i)) (get_walls h another_cell) (nat j))"
    by simp
  from assms(1,2,5) first second show ?thesis
    by (auto simp: remove_wall_between_cell_def get_neighbors_def get_row_def get_column_def
        Let_def split: if_splits)
qed


lemma clear_wall_commute:
  "clear_wall (clear_wall h l i) m j = clear_wall (clear_wall h m j) l i"
proof (cases "l = m")
  case False
  then show ?thesis by (simp add: clear_wall_def fun_upd_twist)
next
  case True
  have "xs[i := v, j := v] = xs[j := v, i := v]" for xs :: "pyval list" and v
    by (cases "i = j") (simp_all add: list_update_swap)
  with True show ?thesis by (simp add: clear_wall_def)
qed

text \<open>
  Claim C2. For two distinct cells \<^verbatim>\<open>self\<close> and \<^verbatim>\<open>other\<close> with \<^verbatim>\<open>other\<close> in the
  neighbor list of \<^verbatim>\<open>self\<close>, \<^verbatim>\<open>remove_wall_between_cell\<close> returns and clears exactly
  the wall entries of the arithmetic over \<open>col_diff = self.column - other.column\<close> and
  \<open>row_diff = self.row - other.row\<close>: entry \<open>2 + col_diff\<close> of \<^verbatim>\<open>self\<close> and
  \<open>2 - col_diff\<close> of \<^verbatim>\<open>other\<close> if \<open>col_diff\<close> is nonzero (\<open>-1\<close>: East 1 and West 3;
  \<open>+1\<close>: West 3 and East 1), otherwise entry \<open>1 - row_diff\<close> of \<^verbatim>\<open>self\<close> and
  \<open>1 + row_diff\<close> of \<^verbatim>\<open>other\<close> (\<open>-1\<close>: South 2 and North 0; \<open>+1\<close>: North 0 and
  South 2); and one of these four cases always applies. The neighbor list is the one the
  constructor computed, and both wall lists have their 4 entries.
\<close>

theorem remove_wall_between_cell_indices:
  assumes "self \<noteq> another_cell"
    and "(get_row h another_cell, get_column h another_cell) \<in> set (get_neighbors h self)"
    and "get_neighbors h self = grid_neighbors (get_row h self) (get_column h self) width height"
    and "length (wall_values h self) = 4" and "length (wall_values h another_cell) = 4"
  shows "let col_diff = get_column h self - get_column h another_cell;
             row_diff = get_row h self - get_row h another_cell;
             ws = get_walls h self; wo = get_walls h another_cell;
             outcome = remove_wall_between_cell h self another_cell
         in (col_diff \<noteq> 0 \<longrightarrow>
               outcome = (Returns (),
                 clear_wall (clear_wall h ws (nat (2 + col_diff))) wo (nat (2 - col_diff))))
          \<and> (col_diff = 0 \<longrightarrow>
               outcome = (Returns (),
                 clear_wall (clear_wall h ws (nat (1 - row_diff))) wo (nat (1 + row_diff))))
          \<and> (col_diff = -1 \<longrightarrow> outcome = (Returns (), clear_wall (clear_wall h ws 1) wo 3))
          \<and> (col_diff = 1 \<longrightarrow> outcome = (Returns (), clear_wall (clear_wall h ws 3) wo 1))
          \<and> (col_diff = 0 \<and> row_diff = -1 \<longrightarrow>
               outcome = (Returns (), clear_wall (clear_wall h ws 2) wo 0))
          \<and> (col_diff = 0 \<and> row_diff = 1 \<longrightarrow>
               outcome = (Returns (), clear_wall (clear_wall h ws 0) wo 2))
          \<and> (col_diff = -1 \<or> col_diff = 1 \<or> (col_diff = 0 \<and> (row_diff = -1 \<or> row_diff = 1)))"
proof -
  note w = remove_wall_between_cell_writes [OF assms(1,2,4,5)]
  from adjacent_cases [OF assms(2,3)] consider
      (north) "get_row h another_cell = get_row h self - 1"
              "get_column h another_cell = get_column h self"
    | (east) "get_row h another_cell = get_row h self"
             "get_column h another_cell = get_column h self + 1"
    | (south) "get_row h another_cell = get_row h self + 1"
              "get_column h another_cell = get_column h self"
    | (west) "get_row h another_cell = get_row h self"
             "get_column h another_cell = get_column h self - 1"
    by blast
  then show ?thesis
  proof cases
    case north
    with w [of 0 2] show ?thesis by (simp add: Let_def)
  next
    case east
    with w [of 1 3] show ?thesis by (simp add: Let_def)
  next
    case south
    with w [of 2 0] show ?thesis by (simp add: Let_def)
  next
    case west
    with w [of 3 1] show ?thesis by (simp add: Let_def)
  qed
qed

text \<open>The call of the class docstring, \<^verbatim>\<open>cell.remove_wall_between_cell(near_cell)\<close>.\<close>

theorem remove_wall_between_cell_indices_witness:
  "(0::nat) \<noteq> 1
   \<and> (get_row two_cells 1, get_column two_cells 1) \<in> set (get_neighbors two_cells 0)
   \<and> get_neighbors two_cells 0
        = grid_neighbors (get_row two_cells 0) (get_column two_cells 0) 5 5
   \<and> length (wall_values two_cells 0) = 4 \<and> length (wall_values two_cells 1) = 4
   \<and> get_column two_cells 0 - get_column two_cells 1 = 0
   \<and> get_row two_cells 0 - get_row two_cells 1 = 1
   \<and> remove_wall_between_cell two_cells 0 1
        = (Returns (), clear_wall (clear_wall two_cells (get_walls two_cells 0) 0)
                          (get_walls two_cells 1) 2)
   \<and> wall_values (snd (remove_wall_between_cell two_cells 0 1)) 0
        = [PBool False, PBool True, PBool True, PBool True]
   \<and> wall_values (snd (remove_wall_between_cell two_cells 0 1)) 1
        = [PBool True, PBool True, PBool False, PBool True]"
proof -
  have a: "(0::nat) \<noteq> 1" by simp
  have b: "(get_row two_cells 1, get_column two_cells 1) \<in> set (get_neighbors two_cells 0)"
    by (simp add: two_cells_reads neighbors_1_0)
  have c: "get_neighbors two_cells 0
        = grid_neighbors (get_row two_cells 0) (get_column two_cells 0) 5 5"
    by (simp add: two_cells_reads)
  have d: "length (wall_values two_cells 0) = 4" "length (wall_values two_cells 1) = 4"
    by (simp_all add: two_cells_reads)
  from remove_wall_between_cell_indices [OF a b c d]
  have e: "remove_wall_between_cell two_cells 0 1
        = (Returns (), clear_wall (clear_wall two_cells (get_walls two_cells 0) 0)
                          (get_walls two_cells 1) 2)"
    by (simp add: Let_def two_cells_reads(1-4))
  have f: "wall_values (snd (remove_wall_between_cell two_cells 0 1)) 0
        = [PBool False, PBool True, PBool True, PBool True]"
     "wall_values (snd (remove_wall_between_cell two_cells 0 1)) 1
        = [PBool True, PBool True, PBool False, PBool True]"
    unfolding e by (simp_all add: wall_values_clear_wall two_cells_reads)
  from a b c d e f show ?thesis by (simp add: two_cells_reads(1-4))
qed

lemma facing_values:
  "get_row h b = get_row h a - 1 \<Longrightarrow> get_column h b = get_column h a \<Longrightarrow>
     facing h a b = 0 \<and> facing h b a = 2"
  "get_row h b = get_row h a \<Longrightarrow> get_column h b = get_column h a + 1 \<Longrightarrow>
     facing h a b = 1 \<and> facing h b a = 3"
  "get_row h b = get_row h a + 1 \<Longrightarrow> get_column h b = get_column h a \<Longrightarrow>
     facing h a b = 2 \<and> facing h b a = 0"
  "get_row h b = get_row h a \<Longrightarrow> get_column h b = get_column h a - 1 \<Longrightarrow>
     facing h a b = 3 \<and> facing h b a = 1"
  by (simp_all add: facing_def wall_toward_def offsets_def)

text \<open>A call that passes both assertions writes the two facing walls.\<close>

lemma remove_wall_between_cell_facing:
  assumes "self \<noteq> another_cell"
    and "(get_row h another_cell, get_column h another_cell) \<in> set (get_neighbors h self)"
    and "get_neighbors h self = grid_neighbors (get_row h self) (get_column h self) width height"
    and "length (wall_values h self) = 4" and "length (wall_values h another_cell) = 4"
  shows "remove_wall_between_cell h self another_cell
           = (Returns (), clear_wall (clear_wall h (get_walls h self) (facing h self another_cell))
                            (get_walls h another_cell) (facing h another_cell self))
         \<and> facing h self another_cell < 4 \<and> facing h another_cell self < 4"
proof -
  note w = remove_wall_between_cell_writes [OF assms(1,2,4,5)]
  from adjacent_cases [OF assms(2,3)] consider
      (north) "get_row h another_cell = get_row h self - 1"
              "get_column h another_cell = get_column h self"
    | (east) "get_row h another_cell = get_row h self"
             "get_column h another_cell = get_column h self + 1"
    | (south) "get_row h another_cell = get_row h self + 1"
              "get_column h another_cell = get_column h self"
    | (west) "get_row h another_cell = get_row h self"
             "get_column h another_cell = get_column h self - 1"
    by blast
  then show ?thesis
  proof cases
    case north
    with w [of 0 2] facing_values(1) [OF north] show ?thesis by simp
  next
    case east
    with w [of 1 3] facing_values(2) [OF east] show ?thesis by simp
  next
    case south
    with w [of 2 0] facing_values(3) [OF south] show ?thesis by simp
  next
    case west
    with w [of 3 1] facing_values(4) [OF west] show ?thesis by simp
  qed
qed

text \<open>
  Claim C1, as the code has it. For two distinct cells A and B with B's coordinates in
  A's neighbor list (the list the constructor computed) and both wall lists of 4
  entries, \<^verbatim>\<open>A.remove_wall_between_cell(B)\<close> returns, and afterwards the wall entry of
  A facing B is \<^verbatim>\<open>False\<close> and the wall entry of B facing A is \<^verbatim>\<open>False\<close>; if moreover
  A and B do not hold one and the same list object as their walls, every other wall
  entry of A and of B is what it was before the call.
\<close>

theorem remove_wall_between_cell_clears_facing_walls:
  assumes "self \<noteq> another_cell"
    and "(get_row h another_cell, get_column h another_cell) \<in> set (get_neighbors h self)"
    and "get_neighbors h self = grid_neighbors (get_row h self) (get_column h self) width height"
    and "length (wall_values h self) = 4" and "length (wall_values h another_cell) = 4"
    and "remove_wall_between_cell h self another_cell = (res, h')"
  shows "res = Returns ()
       \<and> wall_values h' self ! facing h self another_cell = PBool False
       \<and> wall_values h' another_cell ! facing h another_cell self = PBool False
       \<and> (get_walls h self \<noteq> get_walls h another_cell \<longrightarrow>
            (\<forall>i. i \<noteq> facing h self another_cell \<longrightarrow>
                   wall_values h' self ! i = wall_values h self ! i)
          \<and> (\<forall>i. i \<noteq> facing h another_cell self \<longrightarrow>
                   wall_values h' another_cell ! i = wall_values h another_cell ! i))"
proof -
  from remove_wall_between_cell_facing [OF assms(1-5)] assms(6)
  have res: "res = Returns ()"
    and h': "h' = clear_wall (clear_wall h (get_walls h self) (facing h self another_cell))
                            (get_walls h another_cell) (facing h another_cell self)"
    and lt: "facing h self another_cell < 4" "facing h another_cell self < 4"
    by simp_all
  from lt assms(4,5) show ?thesis
    unfolding res h' by (simp add: wall_values_clear_wall nth_list_update)
qed

text \<open>The two cells of the class docstring, each with the wall list it was built with.\<close>

theorem remove_wall_between_cell_clears_facing_walls_witness:
  "(0::nat) \<noteq> 1
   \<and> (get_row two_cells 1, get_column two_cells 1) \<in> set (get_neighbors two_cells 0)
   \<and> get_neighbors two_cells 0
        = grid_neighbors (get_row two_cells 0) (get_column two_cells 0) 5 5
   \<and> length (wall_values two_cells 0) = 4 \<and> length (wall_values two_cells 1) = 4
   \<and> get_walls two_cells 0 \<noteq> get_walls two_cells 1
   \<and> facing two_cells 0 1 = 0 \<and> facing two_cells 1 0 = 2
   \<and> fst (remove_wall_between_cell two_cells 0 1) = Returns ()
   \<and> wall_values (snd (remove_wall_between_cell two_cells 0 1)) 0 ! 0 = PBool False
   \<and> wall_values (snd (remove_wall_between_cell two_cells 0 1)) 1 ! 2 = PBool False
   \<and> wall_values (snd (remove_wall_between_cell two_cells 0 1)) 0 ! 1
        = wall_values two_cells 0 ! 1
   \<and> wall_values (snd (remove_wall_between_cell two_cells 0 1)) 1 ! 3
        = wall_values two_cells 1 ! 3"
proof -
  have a: "(0::nat) \<noteq> 1" by simp
  have b: "(get_row two_cells 1, get_column two_cells 1) \<in> set (get_neighbors two_cells 0)"
    by (simp add: two_cells_reads neighbors_1_0)
  have c: "get_neighbors two_cells 0
        = grid_neighbors (get_row two_cells 0) (get_column two_cells 0) 5 5"
    by (simp add: two_cells_reads)
  have d: "length (wall_values two_cells 0) = 4" "length (wall_values two_cells 1) = 4"
    by (simp_all add: two_cells_reads)
  have e: "remove_wall_between_cell two_cells 0 1
      = (fst (remove_wall_between_cell two_cells 0 1), snd (remove_wall_between_cell two_cells 0 1))"
    by simp
  have f: "get_walls two_cells 0 \<noteq> get_walls two_cells 1"
    by (simp add: two_cells_reads)
  have g: "facing two_cells 0 1 = 0" "facing two_cells 1 0 = 2"
    by (simp_all add: facing_def wall_toward_def offsets_def two_cells_reads)
  from remove_wall_between_cell_clears_facing_walls [OF a b c d e] f
  have "fst (remove_wall_between_cell two_cells 0 1) = Returns ()
   \<and> wall_values (snd (remove_wall_between_cell two_cells 0 1)) 0 ! 0 = PBool False
   \<and> wall_values (snd (remove_wall_between_cell two_cells 0 1)) 1 ! 2 = PBool False
   \<and> wall_values (snd (remove_wall_between_cell two_cells 0 1)) 0 ! 1
        = wall_values two_cells 0 ! 1
   \<and> wall_values (snd (remove_wall_between_cell two_cells 0 1)) 1 ! 3
        = wall_values two_cells 1 ! 3"
    unfolding g by simp
  with a b c d f g show ?thesis by blast
qed

lemma shared_walls_call:
  "remove_wall_between_cell shared_walls 0 (Suc 0)
     = (Returns (), clear_wall (clear_wall shared_walls 0 0) 0 2)"
proof -
  have a: "(0::nat) \<noteq> Suc 0" by simp
  have b: "(get_row shared_walls (Suc 0), get_column shared_walls (Suc 0))
             \<in> set (get_neighbors shared_walls 0)"
    by (simp add: shared_walls_reads neighbors_1_0)
  have d: "length (wall_values shared_walls 0) = 4" "length (wall_values shared_walls (Suc 0)) = 4"
    by (simp_all add: shared_walls_reads)
  from remove_wall_between_cell_writes [OF a b d, of 0 2]
  show ?thesis by (simp add: shared_walls_reads)
qed

text \<open>
  Claim C1 says that every wall entry other than the two facing ones is unchanged, for
  every two distinct adjacent cells. That fails when the two cells hold the same list
  object: after \<^verbatim>\<open>near_cell.set_walls(cell.get_walls())\<close>, the call
  \<^verbatim>\<open>cell.remove_wall_between_cell(near_cell)\<close> writes entry 0 (for \<^verbatim>\<open>cell\<close>) and
  entry 2 (for \<^verbatim>\<open>near_cell\<close>) of the one shared list, so the South wall of \<^verbatim>\<open>cell\<close>,
  which does not face \<^verbatim>\<open>near_cell\<close>, goes from \<^verbatim>\<open>True\<close> to \<^verbatim>\<open>False\<close>.
\<close>

theorem shared_wall_list_counterexample:
  "(0::nat) \<noteq> 1
   \<and> (get_row shared_walls 1, get_column shared_walls 1) \<in> set (get_neighbors shared_walls 0)
   \<and> fst (remove_wall_between_cell shared_walls 0 1) = Returns ()
   \<and> facing shared_walls 0 1 = 0
   \<and> wall_values shared_walls 0 ! 2 = PBool True
   \<and> wall_values (snd (remove_wall_between_cell shared_walls 0 1)) 0 ! 2 = PBool False"
  by (simp add: shared_walls_call shared_walls_reads neighbors_1_0 facing_def wall_toward_def
      offsets_def wall_values_clear_wall)

section \<open>The two participants are interchangeable\<close>

lemma outside_cells_call:
  "remove_wall_between_cell outside_cells 0 (Suc 0)
     = (Returns (), clear_wall (clear_wall outside_cells 0 2) (Suc 0) 0)"
proof -
  have a: "(0::nat) \<noteq> Suc 0" by simp
  have b: "(get_row outside_cells (Suc 0), get_column outside_cells (Suc 0))
             \<in> set (get_neighbors outside_cells 0)"
    by (simp add: outside_cells_reads)
  have d: "length (wall_values outside_cells 0) = 4"
    "length (wall_values outside_cells (Suc 0)) = 4"
    by (simp_all add: outside_cells_reads)
  from remove_wall_between_cell_writes [OF a b d, of 2 0]
  show ?thesis by (simp add: outside_cells_reads)
qed

lemma outside_cells_reverse_call:
  "remove_wall_between_cell outside_cells (Suc 0) 0
     = (Raises (AssertionError ''The two cells are not neighbors''), outside_cells)"
  using outside_cells_reads
  by (simp add: remove_wall_between_cell_def get_neighbors_def)

text \<open>
  Claim C9 says that \<^verbatim>\<open>A.remove_wall_between_cell(B)\<close> and
  \<^verbatim>\<open>B.remove_wall_between_cell(A)\<close> leave the same walls for every two distinct
  adjacent cells, adjacent meaning that B's coordinates are in A's neighbor list. That
  fails when A is not in B's list: \<^verbatim>\<open>edge_cell = Cell(-1, 0, 5, 5)\<close> has
  \<^verbatim>\<open>corner_cell = Cell(0, 0, 5, 5)\<close> at \<open>(0, 0)\<close> in its neighbor list, and
  \<^verbatim>\<open>edge_cell.remove_wall_between_cell(corner_cell)\<close> returns, having cleared the South
  wall of \<^verbatim>\<open>edge_cell\<close> and the North wall of \<^verbatim>\<open>corner_cell\<close>; but \<open>(-1, 0)\<close> is
  outside the grid and so not in the neighbor list of \<^verbatim>\<open>corner_cell\<close>, and
  \<^verbatim>\<open>corner_cell.remove_wall_between_cell(edge_cell)\<close> raises the adjacency assertion
  and leaves all walls in place.
\<close>

theorem one_sided_adjacency_counterexample:
  "(0::nat) \<noteq> 1
   \<and> (get_row outside_cells 1, get_column outside_cells 1) \<in> set (get_neighbors outside_cells 0)
   \<and> fst (remove_wall_between_cell outside_cells 0 1) = Returns ()
   \<and> wall_values (snd (remove_wall_between_cell outside_cells 0 1)) 0
        = [PBool True, PBool True, PBool False, PBool True]
   \<and> wall_values (snd (remove_wall_between_cell outside_cells 0 1)) 1
        = [PBool False, PBool True, PBool True, PBool True]
   \<and> remove_wall_between_cell outside_cells 1 0
        = (Raises (AssertionError ''The two cells are not neighbors''), outside_cells)
   \<and> wall_values (snd (remove_wall_between_cell outside_cells 1 0)) 0
        = [PBool True, PBool True, PBool True, PBool True]
   \<and> remove_wall_between_cell outside_cells 0 1 \<noteq> remove_wall_between_cell outside_cells 1 0"
  by (simp add: outside_cells_call outside_cells_reverse_call outside_cells_reads
      wall_values_clear_wall)

text \<open>
  Claim C9, as the code has it. For two distinct cells A and B each of which has the
  other's coordinates in its neighbor list (the lists being the ones the constructor
  computed) and whose wall lists have their 4 entries,
  \<^verbatim>\<open>A.remove_wall_between_cell(B)\<close> and \<^verbatim>\<open>B.remove_wall_between_cell(A)\<close> from the
  same heap both return and leave the same heap, hence the same walls on A and on B.
  This holds also when A and B share one wall list. For two cells of one grid that lie
  inside it, being in the neighbor list is mutual (\<open>grid_neighbors_mutual\<close>).
\<close>

theorem remove_wall_between_cell_symmetric:
  assumes "a \<noteq> b"
    and "(get_row h b, get_column h b) \<in> set (get_neighbors h a)"
    and "(get_row h a, get_column h a) \<in> set (get_neighbors h b)"
    and "get_neighbors h a = grid_neighbors (get_row h a) (get_column h a) width height"
    and "get_neighbors h b = grid_neighbors (get_row h b) (get_column h b) width' height'"
    and "length (wall_values h a) = 4" and "length (wall_values h b) = 4"
  shows "remove_wall_between_cell h a b = remove_wall_between_cell h b a
       \<and> fst (remove_wall_between_cell h a b) = Returns ()"
proof -
  from assms(1) have ba: "b \<noteq> a" by simp
  from remove_wall_between_cell_facing [OF assms(1,2,4,6,7)]
    remove_wall_between_cell_facing [OF ba assms(3,5,7,6)]
  show ?thesis by (simp add: clear_wall_commute)
qed

theorem remove_wall_between_cell_symmetric_witness:
  "(0::nat) \<noteq> 1
   \<and> (get_row two_cells 1, get_column two_cells 1) \<in> set (get_neighbors two_cells 0)
   \<and> (get_row two_cells 0, get_column two_cells 0) \<in> set (get_neighbors two_cells 1)
   \<and> get_neighbors two_cells 0
        = grid_neighbors (get_row two_cells 0) (get_column two_cells 0) 5 5
   \<and> get_neighbors two_cells 1
        = grid_neighbors (get_row two_cells 1) (get_column two_cells 1) 5 5
   \<and> length (wall_values two_cells 0) = 4 \<and> length (wall_values two_cells 1) = 4
   \<and> remove_wall_between_cell two_cells 0 1 = remove_wall_between_cell two_cells 1 0
   \<and> fst (remove_wall_between_cell two_cells 0 1) = Returns ()"
proof -
  have a: "(0::nat) \<noteq> 1" by simp
  have b: "(get_row two_cells 1, get_column two_cells 1) \<in> set (get_neighbors two_cells 0)"
     "(get_row two_cells 0, get_column two_cells 0) \<in> set (get_neighbors two_cells 1)"
    by (simp_all add: two_cells_reads neighbors_1_0 neighbors_0_0)
  have c: "get_neighbors two_cells 0
        = grid_neighbors (get_row two_cells 0) (get_column two_cells 0) 5 5"
     "get_neighbors two_cells 1
        = grid_neighbors (get_row two_cells 1) (get_column two_cells 1) 5 5"
    by (simp_all add: two_cells_reads)
  have d: "length (wall_values two_cells 0) = 4" "length (wall_values two_cells 1) = 4"
    by (simp_all add: two_cells_reads)
  from remove_wall_between_cell_symmetric [OF a b c d] a b c d
  show ?thesis by blast
qed

section \<open>The accessible neighbors\<close>

lemma length_offsets: "length offsets = 4"
  by (simp add: offsets_def)

lemma py_index_nat: "n < length xs \<Longrightarrow> py_index xs (int n) = Some n"
  by (simp add: py_index_def Let_def)

lemma position_append: "a \<notin> set pre \<Longrightarrow> position (pre @ a # rest) a = length pre"
  by (induction pre) auto

lemma position_less: "a \<in> set xs \<Longrightarrow> position xs a < length xs"
  by (induction xs) auto

text \<open>
  The loop invariant: having gone through the offsets \<open>pre\<close>, with the counter at their
  number, the loop appends, for each remaining offset in order, the coordinate it leads
  to if that is a neighbor and the wall at the offset's position is not set.
\<close>

lemma accessible_loop_suffix:
  assumes "distinct (pre @ os)" and "length (pre @ os) \<le> length ws"
  shows "accessible_loop c ws os (int (length pre)) acc =
           Returns (acc @ map (\<lambda>(y, x). (row c + y, col c + x))
              (filter (\<lambda>(y, x). (row c + y, col c + x) \<in> set (neighbors c)
                                \<and> \<not> truthy (ws ! position (pre @ os) (y, x))) os))"
  using assms
proof (induction os arbitrary: pre acc)
  case Nil
  then show ?case by simp
next
  case (Cons step rest)
  obtain y x where step: "step = (y, x)" by (cases step)
  from Cons.prems have d: "distinct ((pre @ [step]) @ rest)"
    and l: "length ((pre @ [step]) @ rest) \<le> length ws" by simp_all
  have e: "(pre @ [step]) @ rest = pre @ step # rest" by simp
  have n: "int (length (pre @ [step])) = int (length pre) + 1" by simp
  note IH = Cons.IH [OF d l, unfolded e n]
  from Cons.prems have "step \<notin> set pre" by auto
  then have p: "position (pre @ step # rest) step = length pre" by (rule position_append)
  from Cons.prems have "length pre < length ws" by simp
  then have i: "py_index ws (int (length pre)) = Some (length pre)" by (rule py_index_nat)
  show ?case
    unfolding step accessible_loop.simps i
    using p by (simp add: IH step)
qed

lemma get_accessible_neighbors_filter_offsets:
  assumes "length (wall_values h self) = 4"
  shows "get_accessible_neighbors h self =
           Returns (map (\<lambda>(y, x). (get_row h self + y, get_column h self + x))
              (filter (\<lambda>(y, x). (get_row h self + y, get_column h self + x)
                                   \<in> set (get_neighbors h self)
                                \<and> \<not> truthy (wall_values h self ! position offsets (y, x)))
                 offsets))"
proof -
  have d: "distinct ([] @ offsets)" by (simp add: offsets_def)
  from assms have l: "length ([] @ offsets) \<le> length (list_objs h (walls (cell_objs h self)))"
    by (simp add: offsets_def wall_values_def get_walls_def)
  from accessible_loop_suffix [OF d l, of "cell_objs h self" "[]"]
  show ?thesis
    by (simp add: get_accessible_neighbors_def get_row_def get_column_def get_neighbors_def
        wall_values_def get_walls_def)
qed


text \<open>
  Filtering the offsets by "leads to a neighbor and the wall is open" is filtering the
  neighbor list by "the wall toward it is open": the shift by \<open>(r, c)\<close> is injective.
\<close>

lemma shifted_filter:
  fixes r c :: int and ds :: "(int \<times> int) list"
  shows "map (\<lambda>(y, x). (r + y, c + x))
           (filter (\<lambda>(y, x). (r + y, c + x)
                       \<in> set (map (\<lambda>(y, x). (r + y, c + x)) (filter P ds)) \<and> Q (y, x)) ds)
         = filter (\<lambda>p. Q (fst p - r, snd p - c))
             (map (\<lambda>(y, x). (r + y, c + x)) (filter P ds))"
proof -
  let ?g = "\<lambda>(y, x). (r + y, c + x) :: int \<times> int"
  have mem: "(r + y, c + x) \<in> set (map ?g (filter P ds)) \<longleftrightarrow> (y, x) \<in> set ds \<and> P (y, x)"
    for y x
    by (auto simp del: filter.simps)
  have a: "filter (\<lambda>(y, x). (r + y, c + x) \<in> set (map ?g (filter P ds)) \<and> Q (y, x)) ds
          = filter Q (filter P ds)"
    unfolding filter_filter
  proof (rule filter_cong [OF refl])
    fix d assume d: "d \<in> set ds"
    obtain y x where yx: "d = (y, x)" by (cases d)
    from d show "(case d of (y, x) \<Rightarrow>
                    (r + y, c + x) \<in> set (map ?g (filter P ds)) \<and> Q (y, x)) = (P d \<and> Q d)"
      unfolding yx prod.case mem by blast
  qed
  have b: "filter (\<lambda>p. Q (fst p - r, snd p - c)) (map ?g zs) = map ?g (filter Q zs)" for zs
    by (simp add: filter_map comp_def case_prod_beta)
  show ?thesis unfolding a b ..
qed

text \<open>
  Claim C5. For every cell (with the neighbor list the constructor computed) and every
  wall list of 4 entries, \<^verbatim>\<open>get_accessible_neighbors()\<close> returns a subsequence of
  \<^verbatim>\<open>get_neighbors()\<close>: exactly the neighbor coordinates for which the wall entry of
  their direction is false (tested as \<^verbatim>\<open>not walls[i]\<close>; for a list of booleans, the
  entry is \<^verbatim>\<open>False\<close>), in the order North, East, South, West in which
  \<^verbatim>\<open>get_neighbors()\<close> has them.
\<close>

theorem accessible_neighbors_are_open_neighbors:
  assumes "get_neighbors h self
             = grid_neighbors (get_row h self) (get_column h self) width height"
    and "length (wall_values h self) = 4"
  shows "\<exists>accessibles.
           get_accessible_neighbors h self = Returns accessibles
         \<and> accessibles = filter (\<lambda>p. \<not> truthy (wall_values h self ! wall_toward h self p))
                            (get_neighbors h self)
         \<and> subseq accessibles (get_neighbors h self)
         \<and> (list_all is_bool (wall_values h self) \<longrightarrow>
              accessibles = filter (\<lambda>p. wall_values h self ! wall_toward h self p = PBool False)
                              (get_neighbors h self))"
proof -
  let ?nb = "get_neighbors h self" and ?ws = "wall_values h self"
  let ?acc = "filter (\<lambda>p. \<not> truthy (?ws ! wall_toward h self p)) ?nb"
  have run: "get_accessible_neighbors h self = Returns ?acc"
    unfolding get_accessible_neighbors_filter_offsets [OF assms(2)] wall_toward_def
    by (subst (1 2) assms(1), unfold grid_neighbors_def, subst shifted_filter) (rule refl)
  have sub: "subseq ?acc ?nb" by simp
  have bools: "?acc = filter (\<lambda>p. ?ws ! wall_toward h self p = PBool False) ?nb"
    if b: "list_all is_bool ?ws"
  proof (rule filter_cong [OF refl])
    fix p assume "p \<in> set ?nb"
    then have "p \<in> set (grid_neighbors (get_row h self) (get_column h self) width height)"
      using assms(1) by simp
    then have "(fst p - get_row h self, snd p - get_column h self) \<in> set offsets"
      unfolding grid_neighbors_def by (auto simp del: filter.simps)
    then have "position offsets (fst p - get_row h self, snd p - get_column h self)
        < length offsets"
      by (rule position_less)
    then have "wall_toward h self p < 4"
      by (simp add: wall_toward_def length_offsets)
    with assms(2) have "?ws ! wall_toward h self p \<in> set ?ws" by simp
    with b have "is_bool (?ws ! wall_toward h self p)" by (simp add: list_all_iff)
    then show "(\<not> truthy (?ws ! wall_toward h self p))
        = (?ws ! wall_toward h self p = PBool False)"
      by (cases "?ws ! wall_toward h self p") simp_all
  qed
  from run sub bools show ?thesis by blast
qed

text \<open>
  The cell of the class docstring after \<^verbatim>\<open>cell.remove_wall(1)\<close>: only the East wall is
  open, and \<open>(1, 1)\<close> is the one accessible neighbor.
\<close>

lemma east_open:
  "snd (remove_wall two_cells 0 1) = clear_wall two_cells 0 1"
proof -
  have "length (wall_values two_cells 0) = 4" by (simp add: two_cells_reads)
  from remove_wall_4 [OF this, of 1] show ?thesis by (simp add: two_cells_reads)
qed

theorem accessible_neighbors_are_open_neighbors_witness:
  "get_neighbors (snd (remove_wall two_cells 0 1)) 0
     = grid_neighbors (get_row (snd (remove_wall two_cells 0 1)) 0)
         (get_column (snd (remove_wall two_cells 0 1)) 0) 5 5
   \<and> length (wall_values (snd (remove_wall two_cells 0 1)) 0) = 4
   \<and> list_all is_bool (wall_values (snd (remove_wall two_cells 0 1)) 0)
   \<and> wall_values (snd (remove_wall two_cells 0 1)) 0
        = [PBool True, PBool False, PBool True, PBool True]
   \<and> get_neighbors (snd (remove_wall two_cells 0 1)) 0 = [(0, 0), (1, 1), (2, 0)]
   \<and> get_accessible_neighbors (snd (remove_wall two_cells 0 1)) 0 = Returns [(1, 1)]"
proof -
  let ?h = "snd (remove_wall two_cells 0 1)"
  have rc: "get_row ?h 0 = 1" "get_column ?h 0 = 0"
    by (simp_all add: east_open two_cells_reads)
  have nb: "get_neighbors ?h 0 = [(0, 0), (1, 1), (2, 0)]"
    by (simp add: east_open two_cells_reads neighbors_1_0)
  have wf: "get_neighbors ?h 0 = grid_neighbors (get_row ?h 0) (get_column ?h 0) 5 5"
    unfolding rc by (simp add: east_open two_cells_reads)
  have ws: "wall_values ?h 0 = [PBool True, PBool False, PBool True, PBool True]"
    by (simp add: east_open wall_values_clear_wall two_cells_reads)
  have len: "length (wall_values ?h 0) = 4" and bools: "list_all is_bool (wall_values ?h 0)"
    unfolding ws by simp_all
  have toward: "wall_toward ?h 0 (0, 0) = 0" "wall_toward ?h 0 (1, 1) = 1"
    "wall_toward ?h 0 (2, 0) = 2"
    unfolding wall_toward_def rc by (simp_all add: offsets_def)
  from accessible_neighbors_are_open_neighbors [OF wf len] bools
  have "get_accessible_neighbors ?h 0
      = Returns (filter (\<lambda>p. wall_values ?h 0 ! wall_toward ?h 0 p = PBool False)
                   (get_neighbors ?h 0))"
    by (elim exE conjE) (simp only: mp)
  also have "filter (\<lambda>p. wall_values ?h 0 ! wall_toward ?h 0 p = PBool False)
                   (get_neighbors ?h 0) = [(1, 1)]"
    unfolding nb ws by (simp add: toward)
  finally have "get_accessible_neighbors ?h 0 = Returns [(1, 1)]" .
  with wf len bools ws nb show ?thesis by blast
qed

section \<open>What no call changes\<close>

lemma cell_objs_remove_wall: "cell_objs (snd (remove_wall h a i)) = cell_objs h"
  by (simp add: remove_wall_alt split: option.split)

lemma cell_objs_remove_wall_between_cell:
  "cell_objs (snd (remove_wall_between_cell h a b)) = cell_objs h"
proof -
  have step: "cell_objs (snd (case remove_wall h a i of
                                (Raises e, h1) \<Rightarrow> (Raises e, h1)
                              | (Returns u, h1) \<Rightarrow> remove_wall h1 b j)) = cell_objs h" for i j
  proof (cases "remove_wall h a i")
    case (Pair res h1)
    with cell_objs_remove_wall [of h a i] have "cell_objs h1 = cell_objs h" by simp
    with Pair show ?thesis by (cases res) (simp_all add: cell_objs_remove_wall)
  qed
  show ?thesis by (simp add: remove_wall_between_cell_def Let_def step)
qed

text \<open>One call changes neither the coordinates nor the neighbor list of any cell.\<close>

lemma invoke_geometry:
  "get_row (snd (invoke h c)) r = get_row h r
   \<and> get_column (snd (invoke h c)) r = get_column h r
   \<and> get_neighbors (snd (invoke h c)) r = get_neighbors h r"
proof (cases c)
  case (Pair self m)
  show ?thesis
    unfolding Pair
    by (cases m)
      (simp_all add: get_row_def get_column_def get_neighbors_def make_visited_def
        make_unvisited_def set_walls_def cell_objs_remove_wall
        cell_objs_remove_wall_between_cell)
qed

lemma run_geometry:
  "get_row (run h calls) r = get_row h r
   \<and> get_column (run h calls) r = get_column h r
   \<and> get_neighbors (run h calls) r = get_neighbors h r"
proof (induction calls arbitrary: h)
  case Nil
  show ?case by simp
next
  case (Cons c calls)
  from Cons.IH [of "snd (invoke h c)"] invoke_geometry [of h c r]
  show ?case by simp
qed

text \<open>
  Claim C8. Whatever sequence of \<^verbatim>\<open>make_visited\<close>, \<^verbatim>\<open>make_unvisited\<close>,
  \<^verbatim>\<open>set_walls\<close>, \<^verbatim>\<open>remove_wall\<close> and \<^verbatim>\<open>remove_wall_between_cell\<close> calls is run, on
  whatever receivers and arguments and whether the calls return or raise, the row, the
  column and the neighbor list of every cell stay what they were; for a cell that the
  constructor has just built they stay the values given at construction. The reads
  (\<^verbatim>\<open>get_row\<close>, \<^verbatim>\<open>get_column\<close>, \<^verbatim>\<open>is_visited\<close>, \<^verbatim>\<open>get_neighbors\<close>, \<^verbatim>\<open>get_walls\<close>,
  \<^verbatim>\<open>get_accessible_neighbors\<close>) have no assignment at all and are functions of the
  heap. So only the visited flag and the walls are ever mutated.
\<close>

theorem geometry_is_immutable:
  "get_row (run h calls) r = get_row h r
   \<and> get_column (run h calls) r = get_column h r
   \<and> get_neighbors (run h calls) r = get_neighbors h r
   \<and> get_row (run (snd (Cell_init h row' column width height)) calls) (next_cell h) = row'
   \<and> get_column (run (snd (Cell_init h row' column width height)) calls) (next_cell h) = column
   \<and> get_neighbors (run (snd (Cell_init h row' column width height)) calls) (next_cell h)
        = grid_neighbors row' column width height"
proof -
  have "get_row (snd (Cell_init h row' column width height)) (next_cell h) = row'"
    "get_column (snd (Cell_init h row' column width height)) (next_cell h) = column"
    "get_neighbors (snd (Cell_init h row' column width height)) (next_cell h)
        = grid_neighbors row' column width height"
    by (simp_all add: Cell_init_result get_row_def get_column_def get_neighbors_def)
  with run_geometry [of h calls r]
    run_geometry [of "snd (Cell_init h row' column width height)" calls "next_cell h"]
  show ?thesis by simp
qed

text \<open>Five calls on the two cells of the class docstring, one of them raising.\<close>

theorem geometry_is_immutable_witness:
  "get_row (run two_cells
      [(0, Make_visited), (1, Set_walls 0), (0, Remove_wall_between_cell 1),
       (1, Remove_wall 7), (0, Make_unvisited)]) 0 = 1
   \<and> get_column (run two_cells
      [(0, Make_visited), (1, Set_walls 0), (0, Remove_wall_between_cell 1),
       (1, Remove_wall 7), (0, Make_unvisited)]) 0 = 0
   \<and> get_neighbors (run two_cells
      [(0, Make_visited), (1, Set_walls 0), (0, Remove_wall_between_cell 1),
       (1, Remove_wall 7), (0, Make_unvisited)]) 0 = [(0, 0), (1, 1), (2, 0)]"
  using geometry_is_immutable [of two_cells
      "[(0, Make_visited), (1, Set_walls 0), (0, Remove_wall_between_cell 1),
        (1, Remove_wall 7), (0, Make_unvisited)]" 0]
  by (simp only: two_cells_reads neighbors_1_0)

text \<open>
  The wall list of a cell keeps its 4 entries through every call: \<^verbatim>\<open>set_walls\<close> only
  accepts a list of 4, and \<^verbatim>\<open>remove_wall\<close> overwrites an entry.
\<close>

lemma wall_values_remove_wall_length:
  "length (wall_values (snd (remove_wall h a i)) r) = length (wall_values h r)"
  by (simp add: remove_wall_alt split: option.split)

lemma wall_values_remove_wall_between_cell_length:
  "length (wall_values (snd (remove_wall_between_cell h a b)) r) = length (wall_values h r)"
proof -
  have step: "length (wall_values (snd (case remove_wall h a i of
                                (Raises e, h1) \<Rightarrow> (Raises e, h1)
                              | (Returns u, h1) \<Rightarrow> remove_wall h1 b j)) r)
                = length (wall_values h r)" for i j
  proof (cases "remove_wall h a i")
    case (Pair res h1)
    with wall_values_remove_wall_length [of h a i r]
    have "length (wall_values h1 r) = length (wall_values h r)" by simp
    with Pair show ?thesis by (cases res) (simp_all add: wall_values_remove_wall_length)
  qed
  show ?thesis by (simp add: remove_wall_between_cell_def Let_def step)
qed

lemma invoke_wall_length:
  assumes "length (wall_values h r) = 4"
  shows "length (wall_values (snd (invoke h c)) r) = 4"
proof (cases c)
  case (Pair self m)
  from assms show ?thesis
    unfolding Pair
    by (cases m)
      (auto simp: wall_values_def get_walls_def make_visited_def make_unvisited_def
        set_walls_def wall_values_remove_wall_length [unfolded wall_values_def get_walls_def]
        wall_values_remove_wall_between_cell_length [unfolded wall_values_def get_walls_def])
qed

lemma run_wall_length:
  "length (wall_values h r) = 4 \<Longrightarrow> length (wall_values (run h calls) r) = 4"
proof (induction calls arbitrary: h)
  case Nil
  then show ?case by simp
next
  case (Cons c calls)
  from Cons.prems have "length (wall_values (snd (invoke h c)) r) = 4"
    by (rule invoke_wall_length)
  then show ?case by (simp add: Cons.IH)
qed

end
